theory Spec2Isabelle
  imports Main "HOL-Library.Word"
begin

section \<open>Counter (counter.go)\<close>

text \<open>
  The counter is a Go \<open>int\<close> guarded by an embedded \<open>sync.Mutex\<close>. Go's \<open>int\<close> is
  a 64-bit two's complement integer on the 64-bit platforms; \<open>++\<close>, \<open>--\<close> and \<open>+=\<close> wrap
  around, which is what \<open>+\<close> and \<open>-\<close> on \<open>64 word\<close> do. Every exported method takes the
  embedded lock on entry and releases it on exit, so a call is one atomic transition of
  the counter; it is modelled as a function from the counter to the returned value and
  the counter afterwards.
\<close>

type_synonym goint = "64 word"

record Counter =
  count :: goint

definition NewCounter :: "goint \<Rightarrow> Counter" where
  "NewCounter initialValue = \<lparr>count = initialValue\<rparr>"

definition dec :: "Counter \<Rightarrow> Counter" where
  "dec c = c\<lparr>count := count c - 1\<rparr>"

definition inc :: "Counter \<Rightarrow> Counter" where
  "inc c = c\<lparr>count := count c + 1\<rparr>"

definition add :: "goint \<Rightarrow> Counter \<Rightarrow> Counter" where
  "add i c = c\<lparr>count := count c + i\<rparr>"

definition sub :: "goint \<Rightarrow> Counter \<Rightarrow> Counter" where
  "sub i c = c\<lparr>count := count c - i\<rparr>"

definition set_count :: "goint \<Rightarrow> Counter \<Rightarrow> Counter" where
  "set_count i c = c\<lparr>count := i\<rparr>"

text \<open>\<open>v := c.count; c.inc(); return v\<close>, and likewise for the other three.\<close>

definition Inc :: "Counter \<Rightarrow> goint \<times> Counter" where
  "Inc c = (let v = count c in (v, inc c))"

definition Add :: "goint \<Rightarrow> Counter \<Rightarrow> goint \<times> Counter" where
  "Add i c = (let v = count c in (v, add i c))"

definition Dec :: "Counter \<Rightarrow> goint \<times> Counter" where
  "Dec c = (let v = count c in (v, dec c))"

definition Set :: "goint \<Rightarrow> Counter \<Rightarrow> goint \<times> Counter" where
  "Set i c = (let v = count c in (v, set_count i c))"

definition Get :: "Counter \<Rightarrow> goint \<times> Counter" where
  "Get c = (count c, c)"

section \<open>Queue (queue.go)\<close>

text \<open>
  \<open>mode\<close> is a Go \<open>int\<close> holding one of the two \<open>iota\<close> constants; \<open>maxLen\<close> is an
  \<open>int\<close>, zero for an unlimited queue. The elements are \<open>interface{}\<close> values, here
  any type \<open>'a\<close>; the oldest element is the head of the list. As for the counter, the
  embedded lock makes each exported method one transition.
\<close>

definition modeNormal :: int where
  "modeNormal = 0"

definition modeDrop :: int where
  "modeDrop = 1"

datatype qerror = ErrQueueIsEmpty | ErrQueueOverflowed | ErrFailedToDrop qerror

record 'a Queue =
  queue :: "'a list"
  maxLen :: int
  mode :: int

definition NewQueue :: "'a Queue" where
  "NewQueue = \<lparr>queue = [], maxLen = 0, mode = modeNormal\<rparr>"

definition NewLimitedQueue :: "int \<Rightarrow> 'a Queue" where
  "NewLimitedQueue maxl = \<lparr>queue = [], maxLen = maxl, mode = modeNormal\<rparr>"

definition NewDroppingQueue :: "int \<Rightarrow> 'a Queue" where
  "NewDroppingQueue maxl = \<lparr>queue = [], maxLen = maxl, mode = modeDrop\<rparr>"

definition len :: "'a Queue \<Rightarrow> int" where
  "len q = int (length (queue q))"

text \<open>The unexported \<open>pop\<close>: the popped value (\<open>nil\<close> on failure), the error, the queue.\<close>

definition pop :: "'a Queue \<Rightarrow> ('a option \<times> qerror option) \<times> 'a Queue" where
  "pop q =
     (if len q = 0 then ((None, Some ErrQueueIsEmpty), q)
      else ((Some (hd (queue q)), None), q\<lparr>queue := tl (queue q)\<rparr>))"

definition Push :: "'a \<Rightarrow> 'a Queue \<Rightarrow> qerror option \<times> 'a Queue" where
  "Push object q =
     (if maxLen q = 0 \<or> len q < maxLen q then (None, q\<lparr>queue := queue q @ [object]\<rparr>)
      else if mode q = modeNormal then (Some ErrQueueOverflowed, q)
      else if mode q = modeDrop then
        (case pop q of
           ((_, Some err), q') \<Rightarrow> (Some (ErrFailedToDrop err), q')
         | ((_, None), q') \<Rightarrow> (None, q'\<lparr>queue := queue q' @ [object]\<rparr>))
      else (None, q))"

definition Len :: "'a Queue \<Rightarrow> int \<times> 'a Queue" where
  "Len q = (len q, q)"

definition Pop :: "'a Queue \<Rightarrow> ('a option \<times> qerror option) \<times> 'a Queue" where
  "Pop q = pop q"

definition Get_elem :: "'a Queue \<Rightarrow> ('a option \<times> qerror option) \<times> 'a Queue" where
  "Get_elem q =
     (if len q = 0 then ((None, Some ErrQueueIsEmpty), q)
      else ((Some (hd (queue q)), None), q))"

section \<open>Mutex (mutex.go)\<close>

text \<open>
  The model follows one caller through the calls it makes; whatever else the process did
  before shows in the state the call starts from. A call either returns, or panics with
  a value, or never returns because it waits for something that no step of the call can
  provide (a lock that is held, a channel with no receiver). Each outcome carries the
  state reached, since the writes made before a panic stay.
\<close>

datatype panicv = PanicValue string

datatype 'a outcome = Returns 'a | Panics panicv 'a | Blocks 'a

fun final :: "'a outcome \<Rightarrow> 'a" where
  "final (Returns x) = x"
| "final (Panics v x) = x"
| "final (Blocks x) = x"

definition seq :: "'a outcome \<Rightarrow> ('a \<Rightarrow> 'a outcome) \<Rightarrow> 'a outcome" where
  "seq r f = (case r of Returns x \<Rightarrow> f x | Panics v x \<Rightarrow> Panics v x | Blocks x \<Rightarrow> Blocks x)"

subsection \<open>The primitive: \<open>sync.RWMutex\<close>\<close>

text \<open>
  The primitive is either held by one writer, or by some number of readers, or free.
  \<open>Lock\<close> and \<open>RLock\<close> wait while the primitive is not available (\<open>None\<close>: the call
  does not go on). Releasing a primitive that is not held is a misuse fault; it is
  modelled as a panic with a value, which is how the doc comments of \<open>Unlock\<close> and
  \<open>RUnlock\<close> and their deferred \<open>recover()\<close> treat it. A runtime that aborts the
  whole process on this fault is outside this model.
\<close>

record rwmutex =
  writer :: bool
  readers :: nat

definition rw_Lock :: "rwmutex \<Rightarrow> rwmutex option" where
  "rw_Lock r = (if writer r \<or> 0 < readers r then None else Some (r\<lparr>writer := True\<rparr>))"

definition rw_Unlock :: "rwmutex \<Rightarrow> panicv + rwmutex" where
  "rw_Unlock r =
     (if writer r then Inr (r\<lparr>writer := False\<rparr>)
      else Inl (PanicValue ''sync: Unlock of unlocked RWMutex''))"

definition rw_RLock :: "rwmutex \<Rightarrow> rwmutex option" where
  "rw_RLock r = (if writer r then None else Some (r\<lparr>readers := Suc (readers r)\<rparr>))"

definition rw_RUnlock :: "rwmutex \<Rightarrow> panicv + rwmutex" where
  "rw_RUnlock r =
     (if 0 < readers r then Inr (r\<lparr>readers := readers r - 1\<rparr>)
      else Inl (PanicValue ''sync: RUnlock of unlocked RWMutex''))"

subsection \<open>The fields of \<open>Mutex\<close> and what its callbacks act on\<close>

text \<open>
  A \<open>time.Time\<close> is a number of nanoseconds, \<open>0\<close> being the zero value \<open>time.Time{}\<close>
  for which \<open>IsZero\<close> holds; a \<open>time.Duration\<close> is a number of nanoseconds. A
  \<open>*time.Ticker\<close> is \<open>None\<close> for \<open>nil\<close>; a channel is \<open>None\<close> for \<open>nil\<close> and
  otherwise the number \<open>make\<close> gave it.
\<close>

type_synonym Time = int
type_synonym Duration = int

record Ticker =
  period :: Duration
  running :: bool

text \<open>
  The lines written with \<open>log.Printf\<close> and \<open>log.Println\<close>, kept as the arguments of
  their format strings: \<open>"%s for %s %s%s"\<close> (event, kind, name, tag),
  \<open>"%s for %s %s%s: %v"\<close> (the same and the recovered value), \<open>"StackTrace: " + b\<close>, and
  \<open>"%s %s%s is locked for %s"\<close> (kind, name, tag, duration). The tag is \<open>None\<close> where
  \<open>tagInfo\<close> is the empty string.
\<close>

datatype logline =
    LogEvent string string string "string option"
  | LogRecover string string string "string option" panicv
  | LogStackTrace string
  | LogLocked string string "string option" Duration

record MutexParams =
  Name :: string
  SetDefaultCallbacks :: bool
  AddStackTrace :: bool
  Timeout :: Duration

text \<open>
  The callbacks are closures without arguments: what they read and write is the \<open>Mutex\<close>
  they close over and the process around it. \<open>state\<close> holds both: the fields of the
  struct other than the callbacks, then the clock read by \<open>time.Now()\<close>, the log, the
  live watchdog goroutines (each with the close channel its \<open>select\<close> waits on), the
  next channel \<open>make\<close> will return, and what \<open>debug.Stack()\<close> returns. \<open>lockedAtMu\<close>
  is taken and released around each single access to \<open>lockedAt\<close> and is left out.
\<close>

record state =
  mu :: rwmutex
  callbacksMu :: bool
  Name :: string
  lockedAt :: Time
  timeout :: Duration
  ticker :: "Ticker option"
  closeC :: "nat option"
  lockTag :: "string option"
  now :: Time
  logged :: "logline list"
  watchdogs :: "nat option list"
  nextChan :: nat
  stack :: string

type_synonym hook = "state \<Rightarrow> state outcome"
type_synonym rhook = "panicv \<Rightarrow> state \<Rightarrow> state outcome"

text \<open>
  \<open>fired\<close> is not a field of the struct: it records every callback invocation made by
  the methods below, with the tag stored in the mutex at that moment and, for a recover
  callback, the value passed. Callbacks cannot reach it.
\<close>

datatype hookname =
    HBeforeLock | HAfterLock | HBeforeUnlock | HAfterUnlock | HAfterUnlockRecover
  | HBeforeRLock | HAfterRLock | HBeforeRUnlock | HAfterRUnlock | HAfterRUnlockRecover

record invocation =
  slot :: hookname
  tagSeen :: "string option"
  recovered :: "panicv option"

record Mutex =
  st :: state
  BeforeLock :: "hook option"
  AfterLock :: "hook option"
  BeforeUnlock :: "hook option"
  AfterUnlock :: "hook option"
  AfterUnlockRecover :: "rhook option"
  fired :: "invocation list"

subsection \<open>Default callbacks\<close>

definition printStackTrace :: "string \<Rightarrow> state \<Rightarrow> state" where
  "printStackTrace b s = s\<lparr>logged := logged s @ [LogStackTrace b]\<rparr>"

definition defaultCallback :: "string \<Rightarrow> string \<Rightarrow> MutexParams \<Rightarrow> state \<Rightarrow> state" where
  "defaultCallback event mname p s =
     (let tagInfo = lockTag s;
          s1 = s\<lparr>logged := logged s @ [LogEvent event mname (Name s) tagInfo]\<rparr>
      in if AddStackTrace p then printStackTrace (stack s1) s1 else s1)"

definition defaultCallback1 ::
  "string \<Rightarrow> string \<Rightarrow> MutexParams \<Rightarrow> panicv \<Rightarrow> state \<Rightarrow> state" where
  "defaultCallback1 event mname p r s =
     (let tagInfo = lockTag s;
          s1 = s\<lparr>logged := logged s @ [LogRecover event mname (Name s) tagInfo r]\<rparr>
      in if AddStackTrace p then printStackTrace (stack s1) s1 else s1)"

text \<open>\<open>make(chan struct{})\<close>: a channel no one else has.\<close>

definition make_chan :: "state \<Rightarrow> nat \<times> state" where
  "make_chan s = (nextChan s, s\<lparr>nextChan := Suc (nextChan s)\<rparr>)"

text \<open>
  \<open>time.NewTicker(d)\<close> is only called with \<open>d > 0\<close>. \<open>Reset\<close> and \<open>Stop\<close> on a
  \<open>nil\<close> ticker dereference \<open>nil\<close>; \<open>Reset(d)\<close> panics when \<open>d\<close> is not greater
  than zero, as the documentation of \<open>time.Ticker.Reset\<close> says.
\<close>

definition NewTicker :: "Duration \<Rightarrow> Ticker" where
  "NewTicker d = \<lparr>period = d, running = True\<rparr>"

definition nilDereference :: panicv where
  "nilDereference = PanicValue ''invalid memory address or nil pointer dereference''"

definition ticker_Reset :: "Duration \<Rightarrow> state \<Rightarrow> state outcome" where
  "ticker_Reset d s =
     (case ticker s of
        None \<Rightarrow> Panics nilDereference s
      | Some t \<Rightarrow>
          if d \<le> 0 then Panics (PanicValue ''non-positive interval for Ticker.Reset'') s
          else Returns (s\<lparr>ticker := Some (t\<lparr>period := d, running := True\<rparr>)\<rparr>))"

definition ticker_Stop :: "state \<Rightarrow> state outcome" where
  "ticker_Stop s =
     (case ticker s of
        None \<Rightarrow> Panics nilDereference s
      | Some t \<Rightarrow> Returns (s\<lparr>ticker := Some (t\<lparr>running := False\<rparr>)\<rparr>))"

text \<open>
  \<open>m.closeC <- struct{}{}\<close> on the unbuffered channel goes through when a watchdog
  waits on that channel in its \<open>select\<close>; the watchdog then returns. With no such
  receiver, or on a \<open>nil\<close> channel, the send waits.
\<close>

definition send_closeC :: "state \<Rightarrow> state outcome" where
  "send_closeC s =
     (case closeC s of
        None \<Rightarrow> Blocks s
      | Some c \<Rightarrow>
          if Some c \<in> set (watchdogs s)
          then Returns (s\<lparr>watchdogs := remove1 (Some c) (watchdogs s)\<rparr>)
          else Blocks s)"

text \<open>
  The body of \<open>case <-m.ticker.C\<close> in the watchdog goroutine, and a tick taken by the
  first live watchdog, which then goes round its loop and waits on \<open>m.closeC\<close> as it
  is now. \<open>time.Now().Sub\<close> is the difference of the two times.
\<close>

definition watchdogTick :: "MutexParams \<Rightarrow> state \<Rightarrow> state" where
  "watchdogTick p s =
     (let tagInfo = lockTag s;
          lockedAtValue = lockedAt s
      in if lockedAtValue \<noteq> 0 then
           (let duration = now s - lockedAtValue
            in if timeout s \<le> duration
               then s\<lparr>logged := logged s @ [LogLocked ''Mutex'' (MutexParams.Name p) tagInfo duration]\<rparr>
               else s)
         else s)"

definition deliverTick :: "MutexParams \<Rightarrow> state \<Rightarrow> state" where
  "deliverTick p s =
     (case watchdogs s of
        [] \<Rightarrow> s
      | w # ws \<Rightarrow> (watchdogTick p s)\<lparr>watchdogs := closeC s # ws\<rparr>)"

definition haveWarningTimeout :: "MutexParams \<Rightarrow> bool" where
  "haveWarningTimeout p = (0 < Timeout p)"

definition defaultBeforeLock :: "MutexParams \<Rightarrow> hook" where
  "defaultBeforeLock p s = Returns (defaultCallback ''BeforeLock'' ''Mutex'' p s)"

definition defaultAfterLock :: "MutexParams \<Rightarrow> hook" where
  "defaultAfterLock p s =
     (let s1 = defaultCallback ''AfterLock'' ''Mutex'' p s
      in if haveWarningTimeout p then
           (let (c, s2) = make_chan s1;
                s3 = s2\<lparr>closeC := Some c\<rparr>;
                s4 = s3\<lparr>lockedAt := now s3\<rparr>;
                s5 = s4\<lparr>watchdogs := watchdogs s4 @ [closeC s4]\<rparr>
            in ticker_Reset (timeout s5) s5)
         else Returns s1)"

definition defaultBeforeUnlock :: "MutexParams \<Rightarrow> hook" where
  "defaultBeforeUnlock p s =
     (if haveWarningTimeout p then
        seq (seq (ticker_Stop s) (\<lambda>s1. send_closeC (s1\<lparr>lockedAt := 0\<rparr>)))
            (\<lambda>s2. Returns (defaultCallback ''BeforeUnlock'' ''Mutex'' p s2))
      else Returns (defaultCallback ''BeforeUnlock'' ''Mutex'' p s))"

definition defaultAfterUnlock :: "MutexParams \<Rightarrow> hook" where
  "defaultAfterUnlock p s = Returns (defaultCallback ''AfterUnlock'' ''Mutex'' p s)"

definition defaultAfterUnlockRecover :: "MutexParams \<Rightarrow> rhook" where
  "defaultAfterUnlockRecover p r s =
     Returns (defaultCallback1 ''AfterUnlockRecover'' ''Mutex'' p r s)"

text \<open>
  \<open>NewMutex\<close>, called in the process state \<open>e\<close>. The struct is allocated with
  \<open>Name\<close> set and every other field at its zero value; \<open>timeout\<close> is not assigned.
\<close>

definition NewMutex :: "MutexParams \<Rightarrow> state \<Rightarrow> Mutex" where
  "NewMutex p e =
     (let s0 = e\<lparr>mu := \<lparr>writer = False, readers = 0\<rparr>, callbacksMu := False,
                 Name := MutexParams.Name p, lockedAt := 0, timeout := 0,
                 ticker := None, closeC := None, lockTag := None\<rparr>;
          s1 = (if haveWarningTimeout p then
                  (let t = NewTicker (Timeout p);
                       (c, s') = make_chan s0
                   in s'\<lparr>ticker := Some t, closeC := Some c\<rparr>)
                else s0)
      in if SetDefaultCallbacks p then
           \<lparr>st = s1,
            BeforeLock = Some (defaultBeforeLock p),
            AfterLock = Some (defaultAfterLock p),
            BeforeUnlock = Some (defaultBeforeUnlock p),
            AfterUnlock = Some (defaultAfterUnlock p),
            AfterUnlockRecover = Some (defaultAfterUnlockRecover p),
            fired = []\<rparr>
         else
           \<lparr>st = s1, BeforeLock = None, AfterLock = None, BeforeUnlock = None,
            AfterUnlock = None, AfterUnlockRecover = None, fired = []\<rparr>)"

subsection \<open>Lock and Unlock\<close>

text \<open>
  \<open>func() { m.callbacksMu.Lock(); defer m.callbacksMu.Unlock(); ... }()\<close>: the body
  runs with \<open>callbacksMu\<close> held, and the deferred unlock runs when the body returns
  and when it panics.
\<close>

definition withCallbacksMu :: "(Mutex \<Rightarrow> Mutex outcome) \<Rightarrow> Mutex \<Rightarrow> Mutex outcome" where
  "withCallbacksMu body m =
     (if callbacksMu (st m) then Blocks m
      else
        (case body (m\<lparr>st := (st m)\<lparr>callbacksMu := True\<rparr>\<rparr>) of
           Returns m' \<Rightarrow> Returns (m'\<lparr>st := (st m')\<lparr>callbacksMu := False\<rparr>\<rparr>)
         | Panics v m' \<Rightarrow> Panics v (m'\<lparr>st := (st m')\<lparr>callbacksMu := False\<rparr>\<rparr>)
         | Blocks m' \<Rightarrow> Blocks m'))"

text \<open>\<open>if h != nil { h() }\<close> and \<open>if h != nil { h(r) }\<close>.\<close>

definition call :: "hookname \<Rightarrow> hook option \<Rightarrow> Mutex \<Rightarrow> Mutex outcome" where
  "call n h m =
     (case h of
        None \<Rightarrow> Returns m
      | Some f \<Rightarrow>
          map_outcome
            (\<lambda>s. m\<lparr>st := s,
                   fired := fired m @ [\<lparr>slot = n, tagSeen = lockTag (st m), recovered = None\<rparr>]\<rparr>)
            (f (st m)))"

definition call1 :: "hookname \<Rightarrow> rhook option \<Rightarrow> panicv \<Rightarrow> Mutex \<Rightarrow> Mutex outcome" where
  "call1 n h r m =
     (case h of
        None \<Rightarrow> Returns m
      | Some f \<Rightarrow>
          map_outcome
            (\<lambda>s. m\<lparr>st := s,
                   fired := fired m @ [\<lparr>slot = n, tagSeen = lockTag (st m), recovered = Some r\<rparr>]\<rparr>)
            (f r (st m)))"

text \<open>The three steps of \<open>lock\<close>.\<close>

definition Lock_before :: "Mutex \<Rightarrow> Mutex outcome" where
  "Lock_before m = withCallbacksMu (\<lambda>m. call HBeforeLock (BeforeLock m) m) m"

definition Lock_acquire :: "Mutex \<Rightarrow> Mutex outcome" where
  "Lock_acquire m =
     (case rw_Lock (mu (st m)) of
        None \<Rightarrow> Blocks m
      | Some r \<Rightarrow> Returns (m\<lparr>st := (st m)\<lparr>mu := r\<rparr>\<rparr>))"

definition Lock_after :: "string option \<Rightarrow> Mutex \<Rightarrow> Mutex outcome" where
  "Lock_after tag m =
     withCallbacksMu
       (\<lambda>m. let m' = (case tag of None \<Rightarrow> m | Some t \<Rightarrow> m\<lparr>st := (st m)\<lparr>lockTag := Some t\<rparr>\<rparr>)
            in call HAfterLock (AfterLock m') m') m"

definition lock :: "string option \<Rightarrow> Mutex \<Rightarrow> Mutex outcome" where
  "lock tag m = seq (seq (Lock_before m) Lock_acquire) (Lock_after tag)"

definition Lock :: "Mutex \<Rightarrow> Mutex outcome" where
  "Lock m = lock None m"

definition LockWithTag :: "string \<Rightarrow> Mutex \<Rightarrow> Mutex outcome" where
  "LockWithTag tag m = lock (Some tag) m"

text \<open>
  \<open>Unlock\<close>: the \<open>BeforeUnlock\<close> block; then, under the deferred function, the tag is
  cleared, the primitive released and the \<open>AfterUnlock\<close> block run. The deferred
  function sees the panic of any of these, if there is one, and hands its value to
  \<open>AfterUnlockRecover\<close>; after it, \<open>Unlock\<close> returns to its caller.
\<close>

definition Unlock_before :: "Mutex \<Rightarrow> Mutex outcome" where
  "Unlock_before m = withCallbacksMu (\<lambda>m. call HBeforeUnlock (BeforeUnlock m) m) m"

definition Unlock_release :: "Mutex \<Rightarrow> Mutex outcome" where
  "Unlock_release m =
     (let m1 = m\<lparr>st := (st m)\<lparr>lockTag := None\<rparr>\<rparr>
      in case rw_Unlock (mu (st m1)) of
           Inl v \<Rightarrow> Panics v m1
         | Inr r \<Rightarrow> Returns (m1\<lparr>st := (st m1)\<lparr>mu := r\<rparr>\<rparr>))"

definition Unlock_after :: "Mutex \<Rightarrow> Mutex outcome" where
  "Unlock_after m = withCallbacksMu (\<lambda>m. call HAfterUnlock (AfterUnlock m) m) m"

definition Unlock_deferred :: "Mutex outcome \<Rightarrow> Mutex outcome" where
  "Unlock_deferred r =
     (case r of
        Returns m \<Rightarrow> Returns m
      | Panics v m \<Rightarrow>
          withCallbacksMu (\<lambda>m. call1 HAfterUnlockRecover (AfterUnlockRecover m) v m) m
      | Blocks m \<Rightarrow> Blocks m)"

definition Unlock :: "Mutex \<Rightarrow> Mutex outcome" where
  "Unlock m =
     seq (Unlock_before m) (\<lambda>m1. Unlock_deferred (seq (Unlock_release m1) Unlock_after))"

section \<open>RWMutex (rwmutex.go)\<close>

text \<open>The embedded \<open>*Mutex\<close> is the field \<open>theMutex\<close>.\<close>

record RWMutex =
  theMutex :: Mutex
  BeforeRLock :: "hook option"
  AfterRLock :: "hook option"
  BeforeRUnlock :: "hook option"
  AfterRUnlock :: "hook option"
  AfterRUnlockRecover :: "rhook option"

definition NewRWMutex :: "MutexParams \<Rightarrow> state \<Rightarrow> RWMutex" where
  "NewRWMutex p e =
     (let m = NewMutex p e
      in if SetDefaultCallbacks p then
           \<lparr>theMutex = m,
            BeforeRLock = Some (\<lambda>s. Returns (defaultCallback ''BeforeRLock'' ''RWMutex'' p s)),
            AfterRLock = Some (\<lambda>s. Returns (defaultCallback ''AfterRLock'' ''RWMutex'' p s)),
            BeforeRUnlock = Some (\<lambda>s. Returns (defaultCallback ''BeforeRUnlock'' ''RWMutex'' p s)),
            AfterRUnlock = Some (\<lambda>s. Returns (defaultCallback ''AfterRUnlock'' ''RWMutex'' p s)),
            AfterRUnlockRecover =
              Some (\<lambda>r s. Returns (defaultCallback1 ''AfterRUnlockRecover'' ''RWMutex'' p r s))\<rparr>
         else
           \<lparr>theMutex = m, BeforeRLock = None, AfterRLock = None, BeforeRUnlock = None,
            AfterRUnlock = None, AfterRUnlockRecover = None\<rparr>)"

text \<open>A step on the embedded \<open>Mutex\<close>, seen from the \<open>RWMutex\<close>.\<close>

definition onMutex :: "(Mutex \<Rightarrow> Mutex outcome) \<Rightarrow> RWMutex \<Rightarrow> RWMutex outcome" where
  "onMutex f rm = map_outcome (\<lambda>m. rm\<lparr>theMutex := m\<rparr>) (f (theMutex rm))"

definition RLock_before :: "RWMutex \<Rightarrow> RWMutex outcome" where
  "RLock_before rm = onMutex (withCallbacksMu (call HBeforeRLock (BeforeRLock rm))) rm"

definition RLock_acquire :: "RWMutex \<Rightarrow> RWMutex outcome" where
  "RLock_acquire rm =
     onMutex (\<lambda>m. case rw_RLock (mu (st m)) of
                    None \<Rightarrow> Blocks m
                  | Some r \<Rightarrow> Returns (m\<lparr>st := (st m)\<lparr>mu := r\<rparr>\<rparr>)) rm"

definition RLock_after :: "RWMutex \<Rightarrow> RWMutex outcome" where
  "RLock_after rm = onMutex (withCallbacksMu (call HAfterRLock (AfterRLock rm))) rm"

definition RLock :: "RWMutex \<Rightarrow> RWMutex outcome" where
  "RLock rm = seq (seq (RLock_before rm) RLock_acquire) RLock_after"

definition RUnlock_before :: "RWMutex \<Rightarrow> RWMutex outcome" where
  "RUnlock_before rm = onMutex (withCallbacksMu (call HBeforeRUnlock (BeforeRUnlock rm))) rm"

definition RUnlock_release :: "RWMutex \<Rightarrow> RWMutex outcome" where
  "RUnlock_release rm =
     onMutex (\<lambda>m. case rw_RUnlock (mu (st m)) of
                    Inl v \<Rightarrow> Panics v m
                  | Inr r \<Rightarrow> Returns (m\<lparr>st := (st m)\<lparr>mu := r\<rparr>\<rparr>)) rm"

definition RUnlock_after :: "RWMutex \<Rightarrow> RWMutex outcome" where
  "RUnlock_after rm = onMutex (withCallbacksMu (call HAfterRUnlock (AfterRUnlock rm))) rm"

definition RUnlock_deferred :: "RWMutex outcome \<Rightarrow> RWMutex outcome" where
  "RUnlock_deferred r =
     (case r of
        Returns rm \<Rightarrow> Returns rm
      | Panics v rm \<Rightarrow>
          onMutex (withCallbacksMu (call1 HAfterRUnlockRecover (AfterRUnlockRecover rm) v)) rm
      | Blocks rm \<Rightarrow> Blocks rm)"

definition RUnlock :: "RWMutex \<Rightarrow> RWMutex outcome" where
  "RUnlock rm =
     seq (RUnlock_before rm) (\<lambda>rm1. RUnlock_deferred (seq (RUnlock_release rm1) RUnlock_after))"

section \<open>Notions used in the statements\<close>

text \<open>
  The fields the exclusive path uses for the tag and the watchdog, the part of them that
  belongs to the watchdog alone, the callbacks of a mutex, whether a call returned, and
  a process and parameters to run the methods on.
\<close>

definition exclusiveFrame ::
  "state \<Rightarrow> string option \<times> Time \<times> Duration \<times> Ticker option \<times> nat option \<times> nat option list" where
  "exclusiveFrame s = (lockTag s, lockedAt s, timeout s, ticker s, closeC s, watchdogs s)"

definition keepsFrame :: "hook \<Rightarrow> bool" where
  "keepsFrame h = (\<forall>s. exclusiveFrame (final (h s)) = exclusiveFrame s)"

definition hooksOf ::
  "Mutex \<Rightarrow> hook option \<times> hook option \<times> hook option \<times> hook option \<times> rhook option" where
  "hooksOf m = (BeforeLock m, AfterLock m, BeforeUnlock m, AfterUnlock m, AfterUnlockRecover m)"

definition exampleProcess :: state where
  "exampleProcess =
     \<lparr>mu = \<lparr>writer = False, readers = 0\<rparr>, callbacksMu = False, Name = [],
      lockedAt = 0, timeout = 0, ticker = None, closeC = None, lockTag = None,
      now = 1000, logged = [], watchdogs = [], nextChan = 0,
      stack = ''goroutine 1 [running]''\<rparr>"

definition exampleParams :: "Duration \<Rightarrow> MutexParams" where
  "exampleParams d =
     \<lparr>MutexParams.Name = ''m'', SetDefaultCallbacks = True, AddStackTrace = False, Timeout = d\<rparr>"

definition returned :: "'a outcome \<Rightarrow> bool" where
  "returned r = (case r of Returns x \<Rightarrow> True | Panics v x \<Rightarrow> False | Blocks x \<Rightarrow> False)"

definition watchdogFrame ::
  "state \<Rightarrow> Ticker option \<times> nat option \<times> Time \<times> nat option list \<times> nat" where
  "watchdogFrame s = (ticker s, closeC s, lockedAt s, watchdogs s, nextChan s)"

definition sameShared :: "RWMutex \<Rightarrow> RWMutex \<Rightarrow> bool" where
  "sameShared rm x \<longleftrightarrow>
     exclusiveFrame (st (theMutex x)) = exclusiveFrame (st (theMutex rm)) \<and>
     BeforeRLock x = BeforeRLock rm \<and> AfterRLock x = AfterRLock rm \<and>
     BeforeRUnlock x = BeforeRUnlock rm \<and> AfterRUnlock x = AfterRUnlock rm \<and>
     AfterRUnlockRecover x = AfterRUnlockRecover rm"

definition sameExclusive :: "(state \<Rightarrow> 'b) \<Rightarrow> Mutex \<Rightarrow> Mutex \<Rightarrow> bool" where
  "sameExclusive f m x \<longleftrightarrow> f (st x) = f (st m) \<and> hooksOf x = hooksOf m"

section \<open>Properties of the counter and the queue\<close>

text \<open>
  C10. \<open>Inc\<close>, \<open>Dec\<close>, \<open>Add i\<close> and \<open>Set i\<close> each return the value the counter held
  before the call and leave it at that value plus one, minus one, plus \<open>i\<close>, and at
  \<open>i\<close>; \<open>Get\<close> returns the current value and leaves the counter as it was. The
  arithmetic is Go's \<open>int\<close> arithmetic.
\<close>

theorem counter_ops_return_old_value:
  "Inc c = (count c, c\<lparr>count := count c + 1\<rparr>) \<and>
   Dec c = (count c, c\<lparr>count := count c - 1\<rparr>) \<and>
   Add i c = (count c, c\<lparr>count := count c + i\<rparr>) \<and>
   Set i c = (count c, c\<lparr>count := i\<rparr>) \<and>
   Get c = (count c, c)"
  by (simp add: Inc_def Dec_def Add_def Set_def Get_def inc_def dec_def add_def set_count_def)

text \<open>
  C9. On a full bounded queue (\<open>maxLen > 0\<close> and as many elements), \<open>Push\<close> returns
  the overflow error and leaves the queue alone in normal mode, and in drop mode removes
  the oldest element, appends the new one and returns no error. \<open>Pop\<close> on an empty
  queue returns the queue-empty error and leaves the queue alone.
\<close>

theorem queue_full_and_empty:
  "(0 < maxLen q \<and> len q = maxLen q \<and> mode q = modeNormal \<longrightarrow>
      Push x q = (Some ErrQueueOverflowed, q)) \<and>
   (0 < maxLen q \<and> len q = maxLen q \<and> mode q = modeDrop \<longrightarrow>
      Push x q = (None, q\<lparr>queue := tl (queue q) @ [x]\<rparr>)) \<and>
   (queue q = [] \<longrightarrow> Pop q = ((None, Some ErrQueueIsEmpty), q))"
  by (simp add: Push_def Pop_def pop_def len_def modeNormal_def modeDrop_def)

theorem queue_full_and_empty_witness:
  "Push (3::nat) \<lparr>queue = [1, 2], maxLen = 2, mode = modeNormal\<rparr>
     = (Some ErrQueueOverflowed, \<lparr>queue = [1, 2], maxLen = 2, mode = modeNormal\<rparr>) \<and>
   Push (3::nat) \<lparr>queue = [1, 2], maxLen = 2, mode = modeDrop\<rparr>
     = (None, \<lparr>queue = [2, 3], maxLen = 2, mode = modeDrop\<rparr>) \<and>
   Pop (NewLimitedQueue 2 :: nat Queue)
     = ((None, Some ErrQueueIsEmpty), NewLimitedQueue 2)"
  using queue_full_and_empty [of "\<lparr>queue = [1, 2], maxLen = 2, mode = modeNormal\<rparr>" "3::nat"]
    queue_full_and_empty [of "\<lparr>queue = [1, 2], maxLen = 2, mode = modeDrop\<rparr>" "3::nat"]
    queue_full_and_empty [of "NewLimitedQueue 2 :: nat Queue" "3::nat"]
  by (simp add: len_def modeNormal_def modeDrop_def NewLimitedQueue_def)

section \<open>Outcomes, guarded blocks and callbacks\<close>

lemma final_seq_keeps:
  assumes "\<And>x. f (final (k x)) = f x"
  shows "f (final (seq r k)) = f (final r)"
  using assms by (cases r) (simp_all add: seq_def)

lemma final_map_outcome: "final (map_outcome g r) = g (final r)"
  by (cases r) simp_all

lemma withCallbacksMu_keeps:
  assumes "\<And>s b. f (s\<lparr>callbacksMu := b\<rparr>) = f s"
    and "\<And>m'. f (st (final (body m'))) = f (st m')"
  shows "f (st (final (withCallbacksMu body m))) = f (st m)"
proof (cases "callbacksMu (st m)")
  case True
  then show ?thesis by (simp add: withCallbacksMu_def)
next
  case False
  let ?m = "m\<lparr>st := (st m)\<lparr>callbacksMu := True\<rparr>\<rparr>"
  have "f (st (final (body ?m))) = f (st m)"
    using assms(2) [of ?m] assms(1) by simp
  with False show ?thesis
    by (cases "body ?m") (simp_all add: withCallbacksMu_def assms(1))
qed

lemma call_keeps:
  assumes "\<And>g s. h = Some g \<Longrightarrow> f (final (g s)) = f s"
  shows "f (st (final (call n h m))) = f (st m)"
  using assms by (cases h) (simp_all add: call_def final_map_outcome)

lemma call1_keeps:
  assumes "\<And>g s. h = Some g \<Longrightarrow> f (final (g r s)) = f s"
  shows "f (st (final (call1 n h r m))) = f (st m)"
  using assms by (cases h) (simp_all add: call1_def final_map_outcome)

lemma onMutex_keeps:
  assumes "\<And>m. f (st (final (g m))) = f (st m)"
  shows "f (st (theMutex (final (onMutex g rm)))) = f (st (theMutex rm))"
  using assms [of "theMutex rm"] by (simp add: onMutex_def final_map_outcome)

lemma exclusiveFrame_callbacksMu [simp]: "exclusiveFrame (s\<lparr>callbacksMu := b\<rparr>) = exclusiveFrame s"
  by (simp add: exclusiveFrame_def)

lemma exclusiveFrame_mu [simp]: "exclusiveFrame (s\<lparr>mu := r\<rparr>) = exclusiveFrame s"
  by (simp add: exclusiveFrame_def)

lemma RLock_acquire_frame:
  "exclusiveFrame (st (theMutex (final (RLock_acquire rm)))) = exclusiveFrame (st (theMutex rm))"
  unfolding RLock_acquire_def
  by (rule onMutex_keeps) (simp split: option.splits)

lemma RUnlock_release_frame:
  "exclusiveFrame (st (theMutex (final (RUnlock_release rm)))) = exclusiveFrame (st (theMutex rm))"
  unfolding RUnlock_release_def
  by (rule onMutex_keeps) (simp split: sum.splits)

lemma guarded_call_frame:
  assumes "\<And>g. h = Some g \<Longrightarrow> keepsFrame g"
  shows "exclusiveFrame (st (theMutex (final (onMutex (withCallbacksMu (call n h)) rm))))
         = exclusiveFrame (st (theMutex rm))"
proof (rule onMutex_keeps, rule withCallbacksMu_keeps)
  show "\<And>s b. exclusiveFrame (s\<lparr>callbacksMu := b\<rparr>) = exclusiveFrame s" by simp
  show "\<And>m'. exclusiveFrame (st (final (call n h m'))) = exclusiveFrame (st m')"
    by (rule call_keeps) (use assms in \<open>simp add: keepsFrame_def\<close>)
qed

lemma guarded_call1_frame:
  assumes "\<And>g r. h = Some g \<Longrightarrow> keepsFrame (g r)"
  shows "exclusiveFrame (st (theMutex (final (onMutex (withCallbacksMu (call1 n h r)) rm))))
         = exclusiveFrame (st (theMutex rm))"
proof (rule onMutex_keeps, rule withCallbacksMu_keeps)
  show "\<And>s b. exclusiveFrame (s\<lparr>callbacksMu := b\<rparr>) = exclusiveFrame s" by simp
  show "\<And>m'. exclusiveFrame (st (final (call1 n h r m'))) = exclusiveFrame (st m')"
    by (rule call1_keeps) (use assms in \<open>simp add: keepsFrame_def\<close>)
qed

lemma final_seq_inv:
  assumes "P (final r)" and "\<And>x. P x \<Longrightarrow> P (final (k x))"
  shows "P (final (seq r k))"
  using assms by (cases r) (simp_all add: seq_def)

lemma onMutex_hooks [simp]:
  "BeforeRLock (final (onMutex g rm)) = BeforeRLock rm"
  "AfterRLock (final (onMutex g rm)) = AfterRLock rm"
  "BeforeRUnlock (final (onMutex g rm)) = BeforeRUnlock rm"
  "AfterRUnlock (final (onMutex g rm)) = AfterRUnlock rm"
  "AfterRUnlockRecover (final (onMutex g rm)) = AfterRUnlockRecover rm"
  by (simp_all add: onMutex_def final_map_outcome)

lemma RUnlock_deferred_inv:
  assumes "sameShared rm (final r)"
    and "\<forall>h v. AfterRUnlockRecover rm = Some h \<longrightarrow> keepsFrame (h v)"
  shows "sameShared rm (final (RUnlock_deferred r))"
proof (cases r)
  case (Panics v x)
  with assms show ?thesis
    by (simp add: RUnlock_deferred_def sameShared_def guarded_call1_frame)
qed (use assms in \<open>simp_all add: RUnlock_deferred_def\<close>)

lemma withCallbacksMu_inv:
  assumes "P m"
    and "\<And>x b. P x \<Longrightarrow> P (x\<lparr>st := (st x)\<lparr>callbacksMu := b\<rparr>\<rparr>)"
    and "\<And>x. P x \<Longrightarrow> P (final (body x))"
  shows "P (final (withCallbacksMu body m))"
proof (cases "callbacksMu (st m)")
  case True
  with assms(1) show ?thesis by (simp add: withCallbacksMu_def)
next
  case False
  let ?m = "m\<lparr>st := (st m)\<lparr>callbacksMu := True\<rparr>\<rparr>"
  have "P (final (body ?m))" by (intro assms)
  with False show ?thesis
    by (cases "body ?m") (simp_all add: withCallbacksMu_def assms(2))
qed

lemma call_same:
  assumes "sameExclusive f m x" and "\<And>g s. h = Some g \<Longrightarrow> f (final (g s)) = f s"
  shows "sameExclusive f m (final (call n h x))"
  using assms
  by (cases h) (simp_all add: call_def final_map_outcome sameExclusive_def hooksOf_def)

lemma call1_same:
  assumes "sameExclusive f m x" and "\<And>g s. h = Some g \<Longrightarrow> f (final (g r s)) = f s"
  shows "sameExclusive f m (final (call1 n h r x))"
  using assms
  by (cases h) (simp_all add: call1_def final_map_outcome sameExclusive_def hooksOf_def)

lemma exclusive_path_frame:
  fixes f :: "state \<Rightarrow> 'b"
  assumes cb: "\<And>s b. f (s\<lparr>callbacksMu := b\<rparr>) = f s"
    and mu: "\<And>s r. f (s\<lparr>mu := r\<rparr>) = f s"
    and tg: "\<And>s t. f (s\<lparr>lockTag := t\<rparr>) = f s"
    and bl: "\<And>g s. BeforeLock m = Some g \<Longrightarrow> f (final (g s)) = f s"
    and al: "\<And>g s. AfterLock m = Some g \<Longrightarrow> f (final (g s)) = f s"
    and bu: "\<And>g s. BeforeUnlock m = Some g \<Longrightarrow> f (final (g s)) = f s"
    and au: "\<And>g s. AfterUnlock m = Some g \<Longrightarrow> f (final (g s)) = f s"
    and ar: "\<And>g r s. AfterUnlockRecover m = Some g \<Longrightarrow> f (final (g r s)) = f s"
  shows "f (st (final (lock tag m))) = f (st m)"
    and "f (st (final (Unlock m))) = f (st m)"
proof -
  let ?P = "sameExclusive f m"
  have P0: "?P m" by (simp add: sameExclusive_def)
  have Pcb: "?P (x\<lparr>st := (st x)\<lparr>callbacksMu := b\<rparr>\<rparr>)" if "?P x" for x b
    using that by (simp add: sameExclusive_def hooksOf_def cb)
  have hook_eq: "BeforeLock x = BeforeLock m" "AfterLock x = AfterLock m"
    "BeforeUnlock x = BeforeUnlock m" "AfterUnlock x = AfterUnlock m"
    "AfterUnlockRecover x = AfterUnlockRecover m" if "?P x" for x
    using that by (simp_all add: sameExclusive_def hooksOf_def)
  have before: "?P (final (Lock_before x))" if "?P x" for x
    unfolding Lock_before_def
    by (rule withCallbacksMu_inv [where P = ?P]) (auto intro: that Pcb call_same bl simp: hook_eq)
  have acquire: "?P (final (Lock_acquire x))" if "?P x" for x
    using that by (simp add: Lock_acquire_def sameExclusive_def hooksOf_def mu split: option.splits)
  have Ptag: "?P (x\<lparr>st := (st x)\<lparr>lockTag := t\<rparr>\<rparr>)" if "?P x" for x t
    using that by (simp add: sameExclusive_def hooksOf_def tg)
  have after: "?P (final (Lock_after tag x))" if "?P x" for x
    unfolding Lock_after_def
    by (rule withCallbacksMu_inv [where P = ?P])
      (auto intro!: that Pcb call_same al Ptag simp: hook_eq Let_def split: option.splits)
  have "?P (final (lock tag m))"
    unfolding lock_def by (intro final_seq_inv [where P = ?P] before acquire after P0)
  then show "f (st (final (lock tag m))) = f (st m)" by (simp add: sameExclusive_def)
  have ubefore: "?P (final (Unlock_before x))" if "?P x" for x
    unfolding Unlock_before_def
    by (rule withCallbacksMu_inv [where P = ?P]) (auto intro: that Pcb call_same bu simp: hook_eq)
  have release: "?P (final (Unlock_release x))" if "?P x" for x
    using that
    by (simp add: Unlock_release_def sameExclusive_def hooksOf_def mu tg Let_def split: sum.splits)
  have uafter: "?P (final (Unlock_after x))" if "?P x" for x
    unfolding Unlock_after_def
    by (rule withCallbacksMu_inv [where P = ?P]) (auto intro: that Pcb call_same au simp: hook_eq)
  have deferred: "?P (final (Unlock_deferred r))" if "?P (final r)" for r
  proof (cases r)
    case (Panics v x)
    with that have "?P x" by simp
    then have "?P (final (withCallbacksMu (\<lambda>m. call1 HAfterUnlockRecover (AfterUnlockRecover m) v m) x))"
      by (intro withCallbacksMu_inv [where P = ?P]) (auto intro: Pcb call1_same ar simp: hook_eq)
    with Panics show ?thesis by (simp add: Unlock_deferred_def)
  qed (use that in \<open>simp_all add: Unlock_deferred_def\<close>)
  have "?P (final (Unlock m))"
    unfolding Unlock_def
    by (intro final_seq_inv [where P = ?P] deferred ubefore release uafter P0)
  then show "f (st (final (Unlock m))) = f (st m)" by (simp add: sameExclusive_def)
qed

lemma defaultCallback_exclusiveFrame [simp]:
  "exclusiveFrame (defaultCallback ev mn p s) = exclusiveFrame s"
  by (simp add: defaultCallback_def printStackTrace_def exclusiveFrame_def Let_def)

lemma defaultCallback1_exclusiveFrame [simp]:
  "exclusiveFrame (defaultCallback1 ev mn p r s) = exclusiveFrame s"
  by (simp add: defaultCallback1_def printStackTrace_def exclusiveFrame_def Let_def)

lemma defaultCallback_watchdogFrame [simp]:
  "watchdogFrame (defaultCallback ev mn p s) = watchdogFrame s"
  by (simp add: defaultCallback_def printStackTrace_def watchdogFrame_def Let_def)

lemma defaultCallback1_watchdogFrame [simp]:
  "watchdogFrame (defaultCallback1 ev mn p r s) = watchdogFrame s"
  by (simp add: defaultCallback1_def printStackTrace_def watchdogFrame_def Let_def)

lemma NewMutex_hooks:
  "BeforeLock (NewMutex p e) = (if SetDefaultCallbacks p then Some (defaultBeforeLock p) else None)"
  "AfterLock (NewMutex p e) = (if SetDefaultCallbacks p then Some (defaultAfterLock p) else None)"
  "BeforeUnlock (NewMutex p e) =
     (if SetDefaultCallbacks p then Some (defaultBeforeUnlock p) else None)"
  "AfterUnlock (NewMutex p e) = (if SetDefaultCallbacks p then Some (defaultAfterUnlock p) else None)"
  "AfterUnlockRecover (NewMutex p e) =
     (if SetDefaultCallbacks p then Some (defaultAfterUnlockRecover p) else None)"
  "fired (NewMutex p e) = []"
  by (simp_all add: NewMutex_def Let_def)

section \<open>Properties of the locks\<close>

text \<open>
  C8. \<open>RLock\<close> and \<open>RUnlock\<close> leave the tag, \<open>lockedAt\<close>, \<open>timeout\<close>, the ticker,
  the close channel and the live watchdogs as they were, whatever the outcome of the
  call, provided the five callbacks of the shared path leave them alone themselves
  (the default ones only write to the log).
\<close>

theorem shared_path_leaves_exclusive_state:
  assumes "\<forall>h. BeforeRLock rm = Some h \<longrightarrow> keepsFrame h"
    and "\<forall>h. AfterRLock rm = Some h \<longrightarrow> keepsFrame h"
    and "\<forall>h. BeforeRUnlock rm = Some h \<longrightarrow> keepsFrame h"
    and "\<forall>h. AfterRUnlock rm = Some h \<longrightarrow> keepsFrame h"
    and "\<forall>h r. AfterRUnlockRecover rm = Some h \<longrightarrow> keepsFrame (h r)"
  shows "exclusiveFrame (st (theMutex (final (RLock rm)))) = exclusiveFrame (st (theMutex rm)) \<and>
         exclusiveFrame (st (theMutex (final (RUnlock rm)))) = exclusiveFrame (st (theMutex rm))"
proof -
  have before: "sameShared rm (final (RLock_before rm))"
    using assms(1) by (simp add: sameShared_def RLock_before_def guarded_call_frame)
  have acquire: "sameShared rm (final (RLock_acquire x))" if "sameShared rm x" for x
    using that RLock_acquire_frame [of x] by (simp add: sameShared_def RLock_acquire_def)
  have after: "sameShared rm (final (RLock_after x))" if "sameShared rm x" for x
    using that assms(2) by (simp add: sameShared_def RLock_after_def guarded_call_frame)
  have rlock: "sameShared rm (final (RLock rm))"
    unfolding RLock_def
    by (intro final_seq_inv [where P = "sameShared rm"] before acquire after)
  have ubefore: "sameShared rm (final (RUnlock_before rm))"
    using assms(3) by (simp add: sameShared_def RUnlock_before_def guarded_call_frame)
  have release: "sameShared rm (final (RUnlock_release x))" if "sameShared rm x" for x
    using that RUnlock_release_frame [of x] by (simp add: sameShared_def RUnlock_release_def)
  have uafter: "sameShared rm (final (RUnlock_after x))" if "sameShared rm x" for x
    using that assms(4) by (simp add: sameShared_def RUnlock_after_def guarded_call_frame)
  have body: "sameShared rm (final (RUnlock_deferred (seq (RUnlock_release x) RUnlock_after)))"
    if "sameShared rm x" for x
    by (intro RUnlock_deferred_inv final_seq_inv [where P = "sameShared rm"]
          release uafter that assms(5))
  have runlock: "sameShared rm (final (RUnlock rm))"
    unfolding RUnlock_def
    by (intro final_seq_inv [where P = "sameShared rm"] ubefore body)
  from rlock runlock show ?thesis by (simp add: sameShared_def)
qed

theorem shared_path_leaves_exclusive_state_witness:
  "exclusiveFrame (st (theMutex (final (RLock (NewRWMutex (exampleParams 50) exampleProcess)))))
     = (None, 0, 0, Some \<lparr>period = 50, running = True\<rparr>, Some 0, []) \<and>
   exclusiveFrame (st (theMutex (final (RUnlock (NewRWMutex (exampleParams 50) exampleProcess)))))
     = (None, 0, 0, Some \<lparr>period = 50, running = True\<rparr>, Some 0, [])"
proof -
  let ?rm = "NewRWMutex (exampleParams 50) exampleProcess"
  have h1: "\<forall>h. BeforeRLock ?rm = Some h \<longrightarrow> keepsFrame h"
    by (auto simp: NewRWMutex_def exampleParams_def keepsFrame_def Let_def)
  have h2: "\<forall>h. AfterRLock ?rm = Some h \<longrightarrow> keepsFrame h"
    by (auto simp: NewRWMutex_def exampleParams_def keepsFrame_def Let_def)
  have h3: "\<forall>h. BeforeRUnlock ?rm = Some h \<longrightarrow> keepsFrame h"
    by (auto simp: NewRWMutex_def exampleParams_def keepsFrame_def Let_def)
  have h4: "\<forall>h. AfterRUnlock ?rm = Some h \<longrightarrow> keepsFrame h"
    by (auto simp: NewRWMutex_def exampleParams_def keepsFrame_def Let_def)
  have h5: "\<forall>h r. AfterRUnlockRecover ?rm = Some h \<longrightarrow> keepsFrame (h r)"
    by (auto simp: NewRWMutex_def exampleParams_def keepsFrame_def Let_def)
  have "exclusiveFrame (st (theMutex ?rm))
          = (None, 0, 0, Some \<lparr>period = 50, running = True\<rparr>, Some 0, [])"
    by (simp add: NewRWMutex_def NewMutex_def exampleParams_def exampleProcess_def
        exclusiveFrame_def haveWarningTimeout_def make_chan_def NewTicker_def Let_def)
  with shared_path_leaves_exclusive_state [OF h1 h2 h3 h4 h5] show ?thesis by simp
qed

text \<open>
  C7. With a zero timeout \<open>NewMutex\<close> returns a mutex without ticker and without close
  channel, having made no channel and started no goroutine; and on a mutex it returned,
  in whatever state, \<open>lock\<close> and \<open>Unlock\<close> leave the ticker, the close channel,
  \<open>lockedAt\<close>, the live watchdogs and the channels made as they were.
\<close>

theorem zero_timeout_disables_watchdog:
  assumes "Timeout p = 0"
  shows "ticker (st (NewMutex p e)) = None \<and> closeC (st (NewMutex p e)) = None \<and>
         nextChan (st (NewMutex p e)) = nextChan e \<and>
         watchdogs (st (NewMutex p e)) = watchdogs e \<and>
         watchdogFrame (st (final (lock tag ((NewMutex p e)\<lparr>st := s, fired := tr\<rparr>)))) = watchdogFrame s \<and>
         watchdogFrame (st (final (Unlock ((NewMutex p e)\<lparr>st := s, fired := tr\<rparr>)))) = watchdogFrame s"
proof -
  let ?m = "(NewMutex p e)\<lparr>st := s, fired := tr\<rparr>"
  have off: "\<not> haveWarningTimeout p"
    using assms by (simp add: haveWarningTimeout_def)
  have bl: "watchdogFrame (final (g x)) = watchdogFrame x" if "BeforeLock ?m = Some g" for g x
    using that by (auto simp: NewMutex_hooks defaultBeforeLock_def split: if_splits)
  have al: "watchdogFrame (final (g x)) = watchdogFrame x" if "AfterLock ?m = Some g" for g x
    using that off by (auto simp: NewMutex_hooks defaultAfterLock_def Let_def split: if_splits)
  have bu: "watchdogFrame (final (g x)) = watchdogFrame x" if "BeforeUnlock ?m = Some g" for g x
    using that off by (auto simp: NewMutex_hooks defaultBeforeUnlock_def split: if_splits)
  have au: "watchdogFrame (final (g x)) = watchdogFrame x" if "AfterUnlock ?m = Some g" for g x
    using that by (auto simp: NewMutex_hooks defaultAfterUnlock_def split: if_splits)
  have ar: "watchdogFrame (final (g r x)) = watchdogFrame x"
    if "AfterUnlockRecover ?m = Some g" for g r x
    using that by (auto simp: NewMutex_hooks defaultAfterUnlockRecover_def split: if_splits)
  have "watchdogFrame (st (final (lock tag ?m))) = watchdogFrame (st ?m)"
    by (rule exclusive_path_frame(1) [where f = watchdogFrame])
      (simp_all add: watchdogFrame_def [of "_\<lparr>callbacksMu := _\<rparr>"]
        watchdogFrame_def [of "_\<lparr>mu := _\<rparr>"] watchdogFrame_def [of "_\<lparr>lockTag := _\<rparr>"]
        bl al bu au ar, simp_all add: watchdogFrame_def)
  moreover have "watchdogFrame (st (final (Unlock ?m))) = watchdogFrame (st ?m)"
    by (rule exclusive_path_frame(2) [where f = watchdogFrame])
      (simp_all add: watchdogFrame_def [of "_\<lparr>callbacksMu := _\<rparr>"]
        watchdogFrame_def [of "_\<lparr>mu := _\<rparr>"] watchdogFrame_def [of "_\<lparr>lockTag := _\<rparr>"]
        bl al bu au ar, simp_all add: watchdogFrame_def)
  moreover have "ticker (st (NewMutex p e)) = None \<and> closeC (st (NewMutex p e)) = None \<and>
         nextChan (st (NewMutex p e)) = nextChan e \<and>
         watchdogs (st (NewMutex p e)) = watchdogs e"
    using off by (simp add: NewMutex_def Let_def)
  ultimately show ?thesis by simp
qed

theorem zero_timeout_disables_watchdog_witness:
  "Timeout (exampleParams 0) = 0 \<and>
   ticker (st (NewMutex (exampleParams 0) exampleProcess)) = None \<and>
   closeC (st (NewMutex (exampleParams 0) exampleProcess)) = None \<and>
   watchdogFrame (st (final (lock (Some ''x'') (NewMutex (exampleParams 0) exampleProcess))))
     = (None, None, 0, [], 0) \<and>
   watchdogFrame (st (final (Unlock (NewMutex (exampleParams 0) exampleProcess))))
     = (None, None, 0, [], 0)"
proof -
  let ?m = "NewMutex (exampleParams 0) exampleProcess"
  have t: "Timeout (exampleParams 0) = 0" by (simp add: exampleParams_def)
  have m: "?m\<lparr>st := st ?m, fired := []\<rparr> = ?m" by (simp add: NewMutex_def Let_def)
  have f: "watchdogFrame (st ?m) = (None, None, 0, [], 0)"
    by (simp add: NewMutex_def exampleParams_def exampleProcess_def watchdogFrame_def
        haveWarningTimeout_def Let_def)
  from zero_timeout_disables_watchdog
    [OF t, where e = exampleProcess and tag = "Some ''x''" and s = "st ?m" and tr = "[]"]
  show ?thesis unfolding m f using t by simp
qed

end
